theory Spec2Isabelle
  imports Main "HOL-Library.Word"
begin

section \<open>The mo-dump program: data\<close>

text \<open>
  The program of \<^verbatim>\<open>src/main.cpp\<close> reads a GNU gettext \<^verbatim>\<open>.mo\<close> file into a
  \<^verbatim>\<open>std::string\<close>, overlays a header and two tables of descriptors on its bytes and
  fills a \<^verbatim>\<open>std::unordered_map\<close> with the strings the descriptors point to.

  A \<^verbatim>\<open>std::string\<close> is a sequence of 8-bit \<^verbatim>\<open>char\<close>s: HOL's \<^typ>\<open>string\<close>.
  \<^verbatim>\<open>uint32_t\<close> is \<^typ>\<open>32 word\<close>, whose \<open>+\<close> and \<open>*\<close> wrap around as the C++
  operators do. \<^verbatim>\<open>size_t\<close> values (sizes, positions inside the buffer) are natural
  numbers: the program never computes with them beyond comparing them, and a pointer plus
  an index is an address on a 64-bit host, where it does not wrap.

  The overlay \<^verbatim>\<open>(mo_header*) content.c_str()\<close> reads the fields in the byte order of
  the host. The model fixes a little-endian host that permits unaligned loads (the
  format's magic number \<^verbatim>\<open>0x950412de\<close> is then stored as \<^verbatim>\<open>de 12 04 95\<close>).
\<close>

type_synonym uint32_t = "32 word"

text \<open>\<^verbatim>\<open>struct mo_header\<close>, five \<^verbatim>\<open>uint32_t\<close> at byte offsets 0, 4, 8, 12 and 16.\<close>

record mo_header =
  magic :: uint32_t
  version :: uint32_t
  number :: uint32_t
  o_offset :: uint32_t
  t_offset :: uint32_t

text \<open>\<^verbatim>\<open>struct mo_entry\<close>: the \<^verbatim>\<open>length\<close> first (byte offset 0, here \<open>length_e\<close>), then the
  file \<^verbatim>\<open>offset\<close> (byte offset 4).\<close>

record mo_entry =
  length_e :: uint32_t
  offset :: uint32_t

definition sizeof_mo_header :: nat where
  "sizeof_mo_header = 20"

definition sizeof_mo_entry :: nat where
  "sizeof_mo_entry = 8"

text \<open>
  \<^verbatim>\<open>hashmap_\<close>, a \<^verbatim>\<open>std::unordered_map<std::string, std::string>\<close>. It is kept as the
  list of its pairs (a key and its translation) in the order of their insertion, with no
  key twice; \<^verbatim>\<open>size()\<close> is the length of the list and a lookup is \<^const>\<open>map_of\<close>.
  The order in which the C++ container iterates is unspecified and nothing below depends
  on it.
\<close>

type_synonym hashmap = "(string \<times> string) list"

text \<open>
  What \<^verbatim>\<open>process_mo_contents\<close> writes to \<^verbatim>\<open>std::cerr\<close> before a \<^verbatim>\<open>return\<close>, one
  constructor for each of its five messages, holding the numbers streamed into the message:
  the size and \<^verbatim>\<open>sizeof(mo_header)\<close> (line 46), nothing (line 51), the version (line 55),
  nothing (line 60), nothing (line 69).
\<close>

datatype diagnostic =
    TooSmall nat nat
  | BadMagic
  | BadVersion uint32_t
  | TableOutOfBounds
  | EntryOutOfBounds

text \<open>
  How a call of \<^verbatim>\<open>process_mo_contents\<close> ends: it falls off the end of the loop
  (\<open>Done\<close>); it prints a diagnostic and returns (\<open>Diag\<close>); \<^verbatim>\<open>std::string::substr\<close>
  throws \<^verbatim>\<open>std::out_of_range\<close>, which nothing in the program catches (\<open>OutOfRange\<close>);
  or an overlaid field is read outside the array that \<^verbatim>\<open>c_str()\<close> returns, where C++
  leaves the behaviour undefined (\<open>BadRead\<close>).
\<close>

datatype status =
    Done
  | Diag diagnostic
  | OutOfRange
  | BadRead

section \<open>Reading the buffer\<close>

text \<open>\<^verbatim>\<open>content.c_str()\<close>: the characters of the string and a terminating NUL.\<close>

definition c_str :: "string \<Rightarrow> string" where
  "c_str content = content @ [CHR 0x00]"

text \<open>Four bytes as a \<^verbatim>\<open>uint32_t\<close>, least significant byte first.\<close>

fun le32 :: "string \<Rightarrow> uint32_t" where
  "le32 [b0, b1, b2, b3] =
     word_of_nat (of_char b0 + 256 * of_char b1 + 65536 * of_char b2 + 16777216 * of_char b3)"
| "le32 _ = 0"

text \<open>
  A \<^verbatim>\<open>uint32_t\<close> field read through a cast pointer at byte address \<open>a\<close> of
  \<^verbatim>\<open>c_str()\<close>; \<open>None\<close> when one of its four bytes lies outside the array.
\<close>

definition load32 :: "string \<Rightarrow> nat \<Rightarrow> uint32_t option" where
  "load32 content a =
     (if a + 4 \<le> size (c_str content) then Some (le32 (take 4 (drop a (c_str content))))
      else None)"

text \<open>The fields of \<^verbatim>\<open>*header\<close>, with \<^verbatim>\<open>header = (mo_header*) content.c_str()\<close>.\<close>

definition read_header :: "string \<Rightarrow> mo_header option" where
  "read_header content =
     (case (load32 content 0, load32 content 4, load32 content 8, load32 content 12,
            load32 content 16) of
        (Some m, Some v, Some n, Some oo, Some t) \<Rightarrow>
          Some \<lparr>magic = m, version = v, number = n, o_offset = oo, t_offset = t\<rparr>
      | _ \<Rightarrow> None)"

text \<open>
  \<^verbatim>\<open>table[i]\<close> for \<^verbatim>\<open>table = (mo_entry*) (content.c_str() + base)\<close>: the entry at byte
  address \<open>base + 8 * i\<close>.
\<close>

definition read_entry :: "string \<Rightarrow> nat \<Rightarrow> nat \<Rightarrow> mo_entry option" where
  "read_entry content base i =
     (case load32 content (base + sizeof_mo_entry * i) of
        None \<Rightarrow> None
      | Some l \<Rightarrow>
          (case load32 content (base + sizeof_mo_entry * i + 4) of
             None \<Rightarrow> None
           | Some off \<Rightarrow> Some \<lparr>length_e = l, offset = off\<rparr>))"

text \<open>
  \<^verbatim>\<open>content.substr(pos, len)\<close>: throws \<^verbatim>\<open>std::out_of_range\<close> (here \<open>None\<close>) when
  \<open>pos\<close> is greater than the size, and otherwise returns the characters from \<open>pos\<close>, at
  most \<open>len\<close> of them and no further than the end of the string.
\<close>

definition substr :: "string \<Rightarrow> nat \<Rightarrow> nat \<Rightarrow> string option" where
  "substr content pos len =
     (if pos > size content then None else Some (take len (drop pos content)))"

section \<open>The parser\<close>

text \<open>
  \<^verbatim>\<open>store_message\<close> calls \<^verbatim>\<open>hashmap_.emplace\<close>, which inserts the pair only if the
  container holds no element with that key.
\<close>

definition store_message :: "string \<Rightarrow> string \<Rightarrow> hashmap \<Rightarrow> hashmap" where
  "store_message msgid msgstr h =
     (case map_of h msgid of None \<Rightarrow> h @ [(msgid, msgstr)] | Some _ \<Rightarrow> h)"

text \<open>
  The condition of line 58: both sums are computed in \<^verbatim>\<open>uint32_t\<close> (the \<^verbatim>\<open>int\<close>
  constant 8 is converted to \<^verbatim>\<open>unsigned\<close>) and only then compared with the
  \<^verbatim>\<open>size_t\<close> size.
\<close>

definition tables_past_end :: "string \<Rightarrow> mo_header \<Rightarrow> bool" where
  "tables_past_end content header \<longleftrightarrow>
     unat (o_offset header + 8 * number header) > size content \<or>
     unat (t_offset header + 8 * number header) > size content"

text \<open>One disjunct of the condition of line 67, again a \<^verbatim>\<open>uint32_t\<close> sum.\<close>

definition entry_past_end :: "string \<Rightarrow> mo_entry \<Rightarrow> bool" where
  "entry_past_end content e \<longleftrightarrow> unat (offset e + length_e e) > size content"

text \<open>
  The body of the loop up to the call of \<^verbatim>\<open>store_message\<close> (lines 67 to 73), for the
  index \<open>i\<close>: either the way the call ends there, or the two strings to store. The
  \<^verbatim>\<open>||\<close> of line 67 reads \<^verbatim>\<open>translated[i]\<close> only if the test of \<^verbatim>\<open>original[i]\<close> is
  false.
\<close>

definition extract_entry :: "string \<Rightarrow> mo_header \<Rightarrow> nat \<Rightarrow> status + string \<times> string" where
  "extract_entry content header i =
     (case read_entry content (unat (o_offset header)) i of
        None \<Rightarrow> Inl BadRead
      | Some original_i \<Rightarrow>
          if entry_past_end content original_i then Inl (Diag EntryOutOfBounds)
          else (case read_entry content (unat (t_offset header)) i of
             None \<Rightarrow> Inl BadRead
           | Some translated_i \<Rightarrow>
               if entry_past_end content translated_i then Inl (Diag EntryOutOfBounds)
               else (case substr content (unat (offset original_i)) (unat (length_e original_i)) of
                  None \<Rightarrow> Inl OutOfRange
                | Some msgid \<Rightarrow>
                    (case substr content (unat (offset translated_i))
                            (unat (length_e translated_i)) of
                       None \<Rightarrow> Inl OutOfRange
                     | Some msgstr \<Rightarrow> Inr (msgid, msgstr)))))"

text \<open>
  The loop of line 66, from the index \<open>i\<close> with the map \<open>h\<close>. The counter is an
  \<^verbatim>\<open>unsigned\<close> that stays below the \<^verbatim>\<open>uint32_t\<close> bound \<^verbatim>\<open>header->number\<close>, so
  \<^verbatim>\<open>++i\<close> never wraps. The result is the way the call ends and \<^verbatim>\<open>hashmap_\<close> as it
  is at that moment.
\<close>

function loop :: "string \<Rightarrow> mo_header \<Rightarrow> nat \<Rightarrow> hashmap \<Rightarrow> status \<times> hashmap" where
  "loop content header i h =
     (if i < unat (number header) then
        (case extract_entry content header i of
           Inl s \<Rightarrow> (s, h)
         | Inr (msgid, msgstr) \<Rightarrow> loop content header (i + 1) (store_message msgid msgstr h))
      else (Done, h))"
  by pat_completeness auto
termination
  by (relation "measure (\<lambda>(content, header, i, h). unat (number header) - i)") auto

declare loop.simps [simp del]

text \<open>\<^verbatim>\<open>process_mo_contents\<close>, with \<^verbatim>\<open>hashmap_\<close> passed in and returned.\<close>

definition process_mo_contents :: "string \<Rightarrow> hashmap \<Rightarrow> status \<times> hashmap" where
  "process_mo_contents content h =
     (if size content < sizeof_mo_header then
        (Diag (TooSmall (size content) sizeof_mo_header), h)
      else (case read_header content of
         None \<Rightarrow> (BadRead, h)
       | Some header \<Rightarrow>
           if magic header \<noteq> 0x950412de then (Diag BadMagic, h)
           else if version header \<noteq> 0 \<and> version header \<noteq> 1 then
             (Diag (BadVersion (version header)), h)
           else if tables_past_end content header then (Diag TableOutOfBounds, h)
           else loop content header 0 h))"

text \<open>
  The constructor \<^verbatim>\<open>mo_parser\<close> on a file that opens, given the file's contents:
  \<^verbatim>\<open>hashmap_\<close> starts empty.
\<close>

definition mo_parser :: "string \<Rightarrow> status \<times> hashmap" where
  "mo_parser contents = process_mo_contents contents []"

section \<open>The dumper\<close>

text \<open>
  \<^verbatim>\<open>quote_escape_string\<close>: the \<^verbatim>\<open>switch\<close> on one character, appending to
  \<^verbatim>\<open>result\<close>. The characters are newline (\<open>0x0A\<close>), tab (\<open>0x09\<close>), NUL, the double
  quote (\<open>0x22\<close>) and the backslash (\<open>0x5C\<close>).
\<close>

definition append_escaped :: "string \<Rightarrow> char \<Rightarrow> string" where
  "append_escaped result c =
     (if c = CHR 0x0A then result @ [CHR 0x5C, CHR ''n'']
      else if c = CHR 0x09 then result @ [CHR 0x5C, CHR ''t'']
      else if c = CHR 0x00 then result @ [CHR 0x5C, CHR ''0'']
      else if c = CHR 0x22 then result @ [CHR 0x5C, CHR 0x22]
      else if c = CHR 0x5C then result @ [CHR 0x5C, CHR 0x5C]
      else result @ [c])"

text \<open>
  \<^verbatim>\<open>result\<close> starts as one double quote, the range-\<^verbatim>\<open>for\<close> runs over the
  characters of \<^verbatim>\<open>str\<close> from the first to the last, and a double quote is appended.
\<close>

definition quote_escape_string :: "string \<Rightarrow> string" where
  "quote_escape_string str = foldl append_escaped [CHR 0x22] str @ [CHR 0x22]"

text \<open>What \<^verbatim>\<open>operator<<\<close> prints for an unsigned integer: its decimal digits.\<close>

function decimal :: "nat \<Rightarrow> string" where
  "decimal n =
     (if n < 10 then [''0123456789'' ! n]
      else decimal (n div 10) @ [''0123456789'' ! (n mod 10)])"
  by pat_completeness auto
termination
  by (relation "measure (\<lambda>n. n)") auto

declare decimal.simps [simp del]

text \<open>The text of each diagnostic, as lines 46, 51, 55, 60 and 69 stream it.\<close>

fun message :: "diagnostic \<Rightarrow> string" where
  "message (TooSmall n m) =
     ''content too small: '' @ decimal n @ '' bytes found, expected '' @ decimal m @
     '' at least'' @ [CHR 0x0A]"
| "message BadMagic = ''magic number mismatch'' @ [CHR 0x0A]"
| "message (BadVersion v) =
     '' header version is wrong (not 0 or 1): '' @ decimal (unat v) @ [CHR 0x0A]"
| "message TableOutOfBounds =
     '' header indicates more messages than file has space for...'' @ [CHR 0x0A]"
| "message EntryOutOfBounds = '' file ended prematurely'' @ [CHR 0x0A]"

text \<open>
  \<^verbatim>\<open>print_usage\<close>, given \<^verbatim>\<open>argv[0 .. argc)\<close>: \<^verbatim>\<open>prog_name\<close> is \<^verbatim>\<open>argv[0]\<close>, a null
  pointer when there is no argument at all.
\<close>

definition print_usage :: "string list \<Rightarrow> string" where
  "print_usage argv =
     (let prog = (case argv of [] \<Rightarrow> ''mo_dump'' | p # _ \<Rightarrow> p)
      in ''Usage:'' @ [CHR 0x0A] @ ''  '' @ prog @ '' mo-filename keys'' @ [CHR 0x0A] @
         ''  '' @ prog @ '' mo-filename pairs'' @ [CHR 0x0A, CHR 0x0A])"

text \<open>
  How the process ends: \<^verbatim>\<open>main\<close> returns a status (falling off its end is
  \<^verbatim>\<open>return 0\<close>); an exception nobody catches calls \<^verbatim>\<open>std::terminate\<close>, which aborts;
  or the behaviour is undefined.
\<close>

datatype exit_status =
    Exit nat
  | Abort
  | Undefined

text \<open>
  A run of the program: what it wrote to \<^verbatim>\<open>std::cout\<close> and \<^verbatim>\<open>std::cerr\<close>, and how
  it ended. For a run that aborts, \<open>err\<close> holds what the program itself wrote, not the
  text that the runtime may add.
\<close>

record run =
  out :: string
  err :: string
  exit :: exit_status

text \<open>
  Lines 147 to 165, with the text already on \<^verbatim>\<open>std::cerr\<close> and the map. The
  range-\<^verbatim>\<open>for\<close> loops visit the map in the container's order, which is unspecified; the
  model takes the order of insertion.
\<close>

definition dump :: "string \<Rightarrow> hashmap \<Rightarrow> string \<Rightarrow> string list \<Rightarrow> run" where
  "dump cerr h action argv =
     (let header_line = ''Read '' @ decimal (size h) @ '' entries:'' @ [CHR 0x0A]
      in if action = ''keys'' then
           \<lparr>out = header_line @
              concat (map (\<lambda>p. ''  '' @ quote_escape_string (fst p) @ [CHR 0x0A]) h) @
              [CHR 0x0A],
            err = cerr, exit = Exit 0\<rparr>
         else if action = ''pairs'' then
           \<lparr>out = header_line @
              concat (map (\<lambda>p. ''  '' @ quote_escape_string (fst p) @ '' -> '' @
                                 quote_escape_string (snd p) @ [CHR 0x0A]) h) @
              [CHR 0x0A],
            err = cerr, exit = Exit 0\<rparr>
         else
           \<lparr>out = header_line @ [CHR 0x0A], err = cerr @ print_usage argv, exit = Exit 0\<rparr>)"

text \<open>
  \<^verbatim>\<open>main\<close>, given the files that open (a map from file names to contents) and
  \<^verbatim>\<open>argv[0 .. argc)\<close>. The constructor of \<^verbatim>\<open>mo_parser\<close> opens the file a second time;
  the model lets it find the same contents.
\<close>

definition main :: "(string \<Rightarrow> string option) \<Rightarrow> string list \<Rightarrow> run" where
  "main files argv =
     (if size argv < 3 then \<lparr>out = [], err = print_usage argv, exit = Exit 1\<rparr>
      else
        (let filename = argv ! 1 in
         case files filename of
           None \<Rightarrow>
             \<lparr>out = [],
              err = print_usage argv @ ''Could not open file '' @ [CHR 0x27] @ filename @
                    [CHR 0x27, CHR 0x0A],
              exit = Exit 1\<rparr>
         | Some contents \<Rightarrow>
             (case mo_parser contents of
                (Done, h) \<Rightarrow> dump [] h (argv ! 2) argv
              | (Diag d, h) \<Rightarrow> dump (message d) h (argv ! 2) argv
              | (OutOfRange, h) \<Rightarrow> \<lparr>out = [], err = [], exit = Abort\<rparr>
              | (BadRead, h) \<Rightarrow> \<lparr>out = [], err = [], exit = Undefined\<rparr>)))"

section \<open>The specification's notions\<close>

text \<open>
  The definitions of this section follow the words of the specification, not the code;
  the theorems compare the code with them.

  \<open>offset + length <= bytes.length\<close>, the sum taken over the natural numbers, which is
  what unsigned 64-bit arithmetic computes for two 32-bit operands.
\<close>

definition fits :: "string \<Rightarrow> mo_entry \<Rightarrow> bool" where
  "fits bytes e \<longleftrightarrow> unat (offset e) + unat (length_e e) \<le> size bytes"

text \<open>\<open>bytes[a .. b)\<close>, and \<open>bytes[offset .. offset+length)\<close> for a table entry.\<close>

definition slice :: "string \<Rightarrow> nat \<Rightarrow> nat \<Rightarrow> string" where
  "slice bytes a b = map (\<lambda>k. bytes ! k) [a..<b]"

definition entry_slice :: "string \<Rightarrow> mo_entry \<Rightarrow> string" where
  "entry_slice bytes e = slice bytes (unat (offset e)) (unat (offset e) + unat (length_e e))"

text \<open>
  The representation of one byte in the specification's \<open>escape\<close>: newline, tab, NUL,
  the double quote and the backslash become a backslash and a second character; every
  other byte stays as it is.
\<close>

definition spec_escaped :: "char \<Rightarrow> string" where
  "spec_escaped c =
     (if c = CHR 0x0A then [CHR 0x5C, CHR ''n'']
      else if c = CHR 0x09 then [CHR 0x5C, CHR ''t'']
      else if c = CHR 0x00 then [CHR 0x5C, CHR ''0'']
      else if c = CHR 0x22 then [CHR 0x5C, CHR 0x22]
      else if c = CHR 0x5C then [CHR 0x5C, CHR 0x5C]
      else [c])"

text \<open>
  The pairs that the loop body extracts at the indices from \<open>i\<close> up to \<open>n\<close> (an index
  where it extracts no pair contributes none), and a map after one \<^const>\<open>store_message\<close>
  for each pair of a list, in the list's order.
\<close>

definition entries_between ::
    "string \<Rightarrow> mo_header \<Rightarrow> nat \<Rightarrow> nat \<Rightarrow> (string \<times> string) list" where
  "entries_between content header i n =
     concat (map (\<lambda>j. case extract_entry content header j of Inl _ \<Rightarrow> [] | Inr p \<Rightarrow> [p])
                 [i..<n])"

definition store_all :: "hashmap \<Rightarrow> (string \<times> string) list \<Rightarrow> hashmap" where
  "store_all h ps = foldl (\<lambda>h p. store_message (fst p) (snd p) h) h ps"

section \<open>Example files\<close>

text \<open>
  A header alone: magic, version 0, no entry, both tables at offset 20 (the end).
\<close>

definition file_count_zero :: string where
  "file_count_zero =
     [CHR 0xDE, CHR 0x12, CHR 0x04, CHR 0x95,
      CHR 0x00, CHR 0x00, CHR 0x00, CHR 0x00,
      CHR 0x00, CHR 0x00, CHR 0x00, CHR 0x00,
      CHR 0x14, CHR 0x00, CHR 0x00, CHR 0x00,
      CHR 0x14, CHR 0x00, CHR 0x00, CHR 0x00]"

text \<open>
  Two entries with the original string \<open>dup\<close>, translated \<open>first\<close> and then \<open>second\<close>:
  the header, the original table at 20 (length 3 at offset 52, length 3 at offset 55), the
  translated table at 36 (length 5 at 58, length 6 at 63), and the strings from offset 52.
\<close>

definition file_dup :: string where
  "file_dup =
     [CHR 0xDE, CHR 0x12, CHR 0x04, CHR 0x95,
      CHR 0x00, CHR 0x00, CHR 0x00, CHR 0x00,
      CHR 0x02, CHR 0x00, CHR 0x00, CHR 0x00,
      CHR 0x14, CHR 0x00, CHR 0x00, CHR 0x00,
      CHR 0x24, CHR 0x00, CHR 0x00, CHR 0x00,
      CHR 0x03, CHR 0x00, CHR 0x00, CHR 0x00,
      CHR 0x34, CHR 0x00, CHR 0x00, CHR 0x00,
      CHR 0x03, CHR 0x00, CHR 0x00, CHR 0x00,
      CHR 0x37, CHR 0x00, CHR 0x00, CHR 0x00,
      CHR 0x05, CHR 0x00, CHR 0x00, CHR 0x00,
      CHR 0x3A, CHR 0x00, CHR 0x00, CHR 0x00,
      CHR 0x06, CHR 0x00, CHR 0x00, CHR 0x00,
      CHR 0x3F, CHR 0x00, CHR 0x00, CHR 0x00] @
     ''dupdupfirstsecond''"

text \<open>
  Two entries in a file of 54 bytes: entry 0 is \<open>a\<close> (length 1 at offset 52) translated
  \<open>b\<close> (length 1 at 53); the original string of entry 1 has length 2 at offset 53, so
  that offset plus length is 55, the size plus one.
\<close>

definition file_partial :: string where
  "file_partial =
     [CHR 0xDE, CHR 0x12, CHR 0x04, CHR 0x95,
      CHR 0x00, CHR 0x00, CHR 0x00, CHR 0x00,
      CHR 0x02, CHR 0x00, CHR 0x00, CHR 0x00,
      CHR 0x14, CHR 0x00, CHR 0x00, CHR 0x00,
      CHR 0x24, CHR 0x00, CHR 0x00, CHR 0x00,
      CHR 0x01, CHR 0x00, CHR 0x00, CHR 0x00,
      CHR 0x34, CHR 0x00, CHR 0x00, CHR 0x00,
      CHR 0x02, CHR 0x00, CHR 0x00, CHR 0x00,
      CHR 0x35, CHR 0x00, CHR 0x00, CHR 0x00,
      CHR 0x01, CHR 0x00, CHR 0x00, CHR 0x00,
      CHR 0x35, CHR 0x00, CHR 0x00, CHR 0x00,
      CHR 0x01, CHR 0x00, CHR 0x00, CHR 0x00,
      CHR 0x35, CHR 0x00, CHR 0x00, CHR 0x00] @
     ''ab''"

text \<open>
  The same file with the two original descriptors exchanged: now entry 0 is the one whose
  offset plus length is 55.
\<close>

definition file_first_bad :: string where
  "file_first_bad =
     [CHR 0xDE, CHR 0x12, CHR 0x04, CHR 0x95,
      CHR 0x00, CHR 0x00, CHR 0x00, CHR 0x00,
      CHR 0x02, CHR 0x00, CHR 0x00, CHR 0x00,
      CHR 0x14, CHR 0x00, CHR 0x00, CHR 0x00,
      CHR 0x24, CHR 0x00, CHR 0x00, CHR 0x00,
      CHR 0x02, CHR 0x00, CHR 0x00, CHR 0x00,
      CHR 0x35, CHR 0x00, CHR 0x00, CHR 0x00,
      CHR 0x01, CHR 0x00, CHR 0x00, CHR 0x00,
      CHR 0x34, CHR 0x00, CHR 0x00, CHR 0x00,
      CHR 0x01, CHR 0x00, CHR 0x00, CHR 0x00,
      CHR 0x35, CHR 0x00, CHR 0x00, CHR 0x00,
      CHR 0x01, CHR 0x00, CHR 0x00, CHR 0x00,
      CHR 0x35, CHR 0x00, CHR 0x00, CHR 0x00] @
     ''ab''"

text \<open>
  A header that announces \<open>0x20000000\<close> entries with both tables at offset 20, in a file
  of 28 bytes. The bytes at offset 20 read as a descriptor of length 100 at offset 0.
\<close>

definition file_huge_count :: string where
  "file_huge_count =
     [CHR 0xDE, CHR 0x12, CHR 0x04, CHR 0x95,
      CHR 0x00, CHR 0x00, CHR 0x00, CHR 0x00,
      CHR 0x00, CHR 0x00, CHR 0x00, CHR 0x20,
      CHR 0x14, CHR 0x00, CHR 0x00, CHR 0x00,
      CHR 0x14, CHR 0x00, CHR 0x00, CHR 0x00,
      CHR 0x64, CHR 0x00, CHR 0x00, CHR 0x00,
      CHR 0x00, CHR 0x00, CHR 0x00, CHR 0x00]"

text \<open>
  One entry in a file of 37 bytes: the original descriptor has length \<open>0xFFFFFFFF\<close> at
  offset 5, the translated one length 1 at offset 36.
\<close>

definition file_wrap_length :: string where
  "file_wrap_length =
     [CHR 0xDE, CHR 0x12, CHR 0x04, CHR 0x95,
      CHR 0x00, CHR 0x00, CHR 0x00, CHR 0x00,
      CHR 0x01, CHR 0x00, CHR 0x00, CHR 0x00,
      CHR 0x14, CHR 0x00, CHR 0x00, CHR 0x00,
      CHR 0x1C, CHR 0x00, CHR 0x00, CHR 0x00,
      CHR 0xFF, CHR 0xFF, CHR 0xFF, CHR 0xFF,
      CHR 0x05, CHR 0x00, CHR 0x00, CHR 0x00,
      CHR 0x01, CHR 0x00, CHR 0x00, CHR 0x00,
      CHR 0x24, CHR 0x00, CHR 0x00, CHR 0x00] @
     ''x''"

text \<open>
  One entry in a file of 37 bytes: the original descriptor has length 1 at offset
  \<open>0xFFFFFFFF\<close>, the translated one length 1 at offset 36.
\<close>

definition file_wrap_offset :: string where
  "file_wrap_offset =
     [CHR 0xDE, CHR 0x12, CHR 0x04, CHR 0x95,
      CHR 0x00, CHR 0x00, CHR 0x00, CHR 0x00,
      CHR 0x01, CHR 0x00, CHR 0x00, CHR 0x00,
      CHR 0x14, CHR 0x00, CHR 0x00, CHR 0x00,
      CHR 0x1C, CHR 0x00, CHR 0x00, CHR 0x00,
      CHR 0x01, CHR 0x00, CHR 0x00, CHR 0x00,
      CHR 0xFF, CHR 0xFF, CHR 0xFF, CHR 0xFF,
      CHR 0x01, CHR 0x00, CHR 0x00, CHR 0x00,
      CHR 0x24, CHR 0x00, CHR 0x00, CHR 0x00] @
     ''x''"


section \<open>Running the model\<close>

lemmas run_defs =
  mo_parser_def process_mo_contents_def sizeof_mo_header_def read_header_def load32_def
  c_str_def tables_past_end_def loop.simps extract_entry_def read_entry_def
  sizeof_mo_entry_def entry_past_end_def substr_def store_message_def

section \<open>The header gates\<close>

text \<open>
  Claim C8. A buffer of fewer than 20 bytes, whatever it holds, ends the parser with the
  diagnostic \<open>TooSmall\<close>, which carries the size found and the 20 bytes expected, and
  the map stays empty.
\<close>

theorem too_small:
  "size content < 20 \<Longrightarrow> mo_parser content = (Diag (TooSmall (size content) 20), [])"
  by (simp add: mo_parser_def process_mo_contents_def sizeof_mo_header_def)

theorem too_small_witness:
  "size ''xyz'' < 20 \<and> mo_parser ''xyz'' = (Diag (TooSmall 3 20), [])"
  using too_small [of "''xyz''"] by simp

text \<open>
  Claim C7. A buffer of at least 20 bytes whose header has the magic number, version 0 or
  1, tables that pass the test of line 58 and a count of 0 is parsed to the end, and the
  map is empty.
\<close>

theorem count_zero:
  assumes "sizeof_mo_header \<le> size content"
      and "read_header content = Some header"
      and "magic header = 0x950412de"
      and "version header = 0 \<or> version header = 1"
      and "\<not> tables_past_end content header"
      and "number header = 0"
  shows "mo_parser content = (Done, [])"
  using assms by (auto simp add: mo_parser_def process_mo_contents_def loop.simps)

theorem count_zero_witness:
  "mo_parser file_count_zero = (Done, [])"
proof -
  let ?header = "\<lparr>magic = 0x950412de, version = 0, number = 0, o_offset = 20, t_offset = 20\<rparr>"
  have "sizeof_mo_header \<le> size file_count_zero"
    by (simp add: sizeof_mo_header_def file_count_zero_def)
  moreover have "read_header file_count_zero = Some ?header"
    by (simp add: read_header_def load32_def c_str_def file_count_zero_def)
  moreover have "\<not> tables_past_end file_count_zero ?header"
    by (simp add: tables_past_end_def file_count_zero_def)
  ultimately show ?thesis
    using count_zero [of file_count_zero ?header] by simp
qed

section \<open>Escaping\<close>

lemma foldl_append_escaped:
  "foldl append_escaped acc s = acc @ concat (map spec_escaped s)"
proof (induction s arbitrary: acc)
  case Nil
  then show ?case by simp
next
  case (Cons c s)
  have "append_escaped acc c = acc @ spec_escaped c"
    by (simp add: append_escaped_def spec_escaped_def)
  then show ?case using Cons.IH [of "append_escaped acc c"] by simp
qed

text \<open>
  Claim C5. \<^const>\<open>quote_escape_string\<close> returns a double quote, then the representation
  of each byte of the string in order (the two-character escapes for newline, tab, NUL,
  double quote and backslash, the byte itself otherwise), then a double quote.
\<close>

theorem quote_escape_string_spec:
  "quote_escape_string s = [CHR 0x22] @ concat (map spec_escaped s) @ [CHR 0x22]"
  by (simp add: quote_escape_string_def foldl_append_escaped)

text \<open>
  The specification's example, the seven bytes \<open>a\<close>, newline, \<open>b\<close>, double quote, \<open>c\<close>,
  backslash, \<open>d\<close>, and a byte above 127.
\<close>

theorem quote_escape_string_spec_witness:
  "quote_escape_string [CHR ''a'', CHR 0x0A, CHR ''b'', CHR 0x22, CHR ''c'', CHR 0x5C, CHR ''d'',
                        CHR 0xE9] =
     [CHR 0x22, CHR ''a'', CHR 0x5C, CHR ''n'', CHR ''b'', CHR 0x5C, CHR 0x22, CHR ''c'',
      CHR 0x5C, CHR 0x5C, CHR ''d'', CHR 0xE9, CHR 0x22]"
  using quote_escape_string_spec
          [of "[CHR ''a'', CHR 0x0A, CHR ''b'', CHR 0x22, CHR ''c'', CHR 0x5C, CHR ''d'', CHR 0xE9]"]
  by (simp add: spec_escaped_def)

section \<open>The map\<close>

lemmas entry_defs = read_entry_def load32_def c_str_def sizeof_mo_entry_def

lemma map_of_store_message:
  "map_of (store_message k v h) x =
     (case map_of h x of Some w \<Rightarrow> Some w | None \<Rightarrow> if x = k then Some v else None)"
  by (auto simp: store_message_def map_add_def split: option.splits)

lemma store_all_Cons:
  "store_all h (p # ps) = store_all (store_message (fst p) (snd p) h) ps"
  by (simp add: store_all_def)

lemma map_of_store_all:
  "map_of (store_all h ps) x = (case map_of h x of Some w \<Rightarrow> Some w | None \<Rightarrow> map_of ps x)"
proof (induction ps arbitrary: h)
  case Nil
  then show ?case by (simp add: store_all_def split: option.splits)
next
  case (Cons p ps)
  show ?case
    by (cases p) (simp add: store_all_Cons Cons.IH map_of_store_message split: option.splits)
qed

lemma size_store_message: "size (store_message k v h) \<le> Suc (size h)"
  by (simp add: store_message_def split: option.splits)

lemma distinct_store_message:
  "distinct (map fst h) \<Longrightarrow> distinct (map fst (store_message k v h))"
  by (auto simp: store_message_def map_of_eq_None_iff split: option.splits)

section \<open>The loop\<close>

text \<open>One iteration, and the end of the loop.\<close>

lemma loop_step_Inr:
  "i < unat (number header) \<Longrightarrow> extract_entry content header i = Inr (k, v) \<Longrightarrow>
   loop content header i h = loop content header (Suc i) (store_message k v h)"
  by (subst loop.simps) simp

lemma loop_step_Inl:
  "i < unat (number header) \<Longrightarrow> extract_entry content header i = Inl s \<Longrightarrow>
   loop content header i h = (s, h)"
  by (subst loop.simps) simp

lemma loop_end:
  "\<not> i < unat (number header) \<Longrightarrow> loop content header i h = (Done, h)"
  by (subst loop.simps) simp

text \<open>
  What the loop body can return: it never reports \<open>Done\<close>, and of the diagnostics only the
  one of line 69.
\<close>

lemma extract_entry_not_Done: "extract_entry content header i \<noteq> Inl Done"
  by (simp add: extract_entry_def split: option.splits)

lemma extract_entry_Diag:
  "extract_entry content header i = Inl (Diag d) \<Longrightarrow> d = EntryOutOfBounds"
  by (simp add: extract_entry_def split: option.splits if_splits)

text \<open>Invariants of the loop, by induction on its computation.\<close>

lemma loop_size:
  "size (snd (loop content header i h)) \<le> size h + (unat (number header) - i)"
proof (induction content header i h rule: loop.induct)
  case (1 content header i h)
  show ?case
  proof (cases "i < unat (number header)")
    case False
    then show ?thesis by (simp add: loop_end)
  next
    case True
    show ?thesis
    proof (cases "extract_entry content header i")
      case (Inl s)
      with True show ?thesis by (simp add: loop_step_Inl)
    next
      case (Inr p)
      obtain k v where p: "p = (k, v)" by (cases p)
      have "size (snd (loop content header (i + 1) (store_message k v h)))
              \<le> size (store_message k v h) + (unat (number header) - (i + 1))"
        using "1.IH" [OF True Inr p [symmetric]] .
      also have "\<dots> \<le> Suc (size h) + (unat (number header) - (i + 1))"
        using size_store_message [of k v h] by simp
      also have "\<dots> = size h + (unat (number header) - i)"
        using True by simp
      finally show ?thesis
        using True Inr p by (simp add: loop_step_Inr)
    qed
  qed
qed

lemma loop_distinct:
  "distinct (map fst h) \<Longrightarrow> distinct (map fst (snd (loop content header i h)))"
proof (induction content header i h rule: loop.induct)
  case (1 content header i h)
  show ?case
  proof (cases "i < unat (number header)")
    case False
    with "1.prems" show ?thesis by (simp add: loop_end)
  next
    case True
    show ?thesis
    proof (cases "extract_entry content header i")
      case (Inl s)
      with True "1.prems" show ?thesis by (simp add: loop_step_Inl)
    next
      case (Inr p)
      obtain k v where p: "p = (k, v)" by (cases p)
      have "distinct (map fst (snd (loop content header (i + 1) (store_message k v h))))"
        using "1.IH" [OF True Inr p [symmetric]] "1.prems" distinct_store_message by blast
      then show ?thesis
        using True Inr p by (simp add: loop_step_Inr)
    qed
  qed
qed

lemma loop_Diag:
  "fst (loop content header i h) = Diag d \<Longrightarrow> d = EntryOutOfBounds"
proof (induction content header i h rule: loop.induct)
  case (1 content header i h)
  show ?case
  proof (cases "i < unat (number header)")
    case False
    with "1.prems" show ?thesis by (simp add: loop_end)
  next
    case True
    show ?thesis
    proof (cases "extract_entry content header i")
      case (Inl s)
      with True "1.prems" extract_entry_Diag show ?thesis by (auto simp add: loop_step_Inl)
    next
      case (Inr p)
      obtain k v where p: "p = (k, v)" by (cases p)
      show ?thesis
        using "1.IH" [OF True Inr p [symmetric]] "1.prems" True Inr p
        by (simp add: loop_step_Inr)
    qed
  qed
qed

lemma loop_Done_all_valid:
  "loop content header i h = (Done, cat) \<Longrightarrow> i \<le> j \<Longrightarrow> j < unat (number header) \<Longrightarrow>
   \<exists>p. extract_entry content header j = Inr p"
proof (induction content header i h rule: loop.induct)
  case (1 content header i h)
  from "1.prems" have lt: "i < unat (number header)" by simp
  show ?case
  proof (cases "extract_entry content header i")
    case (Inl s)
    with lt "1.prems"(1) have "s = Done" by (simp add: loop_step_Inl)
    with Inl extract_entry_not_Done show ?thesis by blast
  next
    case (Inr p)
    obtain k v where p: "p = (k, v)" by (cases p)
    show ?thesis
    proof (cases "j = i")
      case True
      with Inr show ?thesis by blast
    next
      case False
      with "1.prems" have "i + 1 \<le> j" by simp
      moreover have "loop content header (i + 1) (store_message k v h) = (Done, cat)"
        using "1.prems"(1) lt Inr p by (simp add: loop_step_Inr)
      ultimately show ?thesis
        using "1.IH" [OF lt Inr p [symmetric]] "1.prems"(3) by blast
    qed
  qed
qed

text \<open>
  As long as the body extracts a pair at every index, the loop stores the pairs in turn.
\<close>

lemma entries_between_Cons:
  "i < n \<Longrightarrow> extract_entry content header i = Inr p \<Longrightarrow>
   entries_between content header i n = p # entries_between content header (Suc i) n"
  by (simp add: entries_between_def upt_conv_Cons)

lemma loop_prefix:
  assumes "\<forall>j. i \<le> j \<and> j < n \<longrightarrow> (\<exists>p. extract_entry content header j = Inr p)"
      and "i \<le> n" and "n \<le> unat (number header)"
  shows "loop content header i h =
           loop content header n (store_all h (entries_between content header i n))"
  using assms
proof (induction "n - i" arbitrary: i h)
  case 0
  then show ?case by (simp add: entries_between_def store_all_def)
next
  case (Suc d)
  then have lt: "i < n" by simp
  with Suc.prems obtain k v where e: "extract_entry content header i = Inr (k, v)"
    by (metis le_refl surj_pair)
  have "loop content header (Suc i) (store_message k v h) =
          loop content header n
            (store_all (store_message k v h) (entries_between content header (Suc i) n))"
    using Suc.hyps Suc.prems lt by (intro Suc.hyps(1)) auto
  then show ?case
    using lt e Suc.prems(3)
    by (simp add: loop_step_Inr entries_between_Cons store_all_Cons)
qed

lemma entries_between_valid:
  assumes "\<forall>j. i \<le> j \<and> j < n \<longrightarrow> (\<exists>p. extract_entry content header j = Inr p)"
  shows "size (entries_between content header i n) = n - i"
  using assms
proof (induction "n - i" arbitrary: i)
  case 0
  then show ?case by (simp add: entries_between_def)
next
  case (Suc d)
  then have lt: "i < n" by simp
  with Suc.prems obtain p where e: "extract_entry content header i = Inr p"
    by (metis le_refl)
  have "size (entries_between content header (Suc i) n) = n - Suc i"
    using Suc.hyps Suc.prems by (intro Suc.hyps(1)) auto
  then show ?case
    using lt e by (simp add: entries_between_Cons)
qed

lemma map_of_entries_between_none:
  assumes "\<forall>m. a \<le> m \<and> m < i \<longrightarrow> (\<forall>w. extract_entry content header m \<noteq> Inr (k, w))"
  shows "map_of (entries_between content header a i) k = None"
proof -
  have "fst p \<noteq> k" if "p \<in> set (entries_between content header a i)" for p
  proof -
    from that obtain m where "a \<le> m" and "m < i" and "extract_entry content header m = Inr p"
      by (auto simp add: entries_between_def split: sum.splits)
    with assms show ?thesis by (cases p) auto
  qed
  then have "k \<notin> fst ` set (entries_between content header a i)" by blast
  then show ?thesis by (simp add: map_of_eq_None_iff)
qed

lemma map_of_entries_between_first:
  assumes "a \<le> i" and "i < n"
      and "extract_entry content header i = Inr (k, v)"
      and "\<forall>m. a \<le> m \<and> m < i \<longrightarrow> (\<forall>w. extract_entry content header m \<noteq> Inr (k, w))"
  shows "map_of (entries_between content header a n) k = Some v"
proof -
  have "[a..<n] = [a..<i] @ i # [Suc i..<n]"
    using assms(1,2) by (metis le_add_diff_inverse less_imp_le_nat upt_add_eq_append upt_conv_Cons)
  then have "entries_between content header a n =
               entries_between content header a i @ (k, v) # entries_between content header (Suc i) n"
    using assms(3) by (simp add: entries_between_def)
  then show ?thesis
    using map_of_entries_between_none [OF assms(4)] by (simp add: map_add_def)
qed

text \<open>The parser on a buffer that passes the four tests on the header.\<close>

lemma process_loop:
  assumes "sizeof_mo_header \<le> size content"
      and "read_header content = Some header"
      and "magic header = 0x950412de"
      and "version header = 0 \<or> version header = 1"
      and "\<not> tables_past_end content header"
  shows "mo_parser content = loop content header 0 []"
  using assms by (auto simp add: mo_parser_def process_mo_contents_def)

text \<open>
  An entry that fits is accepted and yields its slice; where the 32-bit sum does not wrap,
  the test of line 67 is the specification's test.
\<close>

lemma take_drop_slice:
  "a + n \<le> size xs \<Longrightarrow> take n (drop a xs) = slice xs a (a + n)"
  by (rule nth_equalityI) (simp_all add: slice_def)

lemma fits_not_past_end: "fits content e \<Longrightarrow> \<not> entry_past_end content e"
proof -
  assume f: "fits content e"
  have "unat (offset e + length_e e) \<le> unat (offset e) + unat (length_e e)"
    by (simp add: unat_word_ariths)
  with f show ?thesis by (simp add: fits_def entry_past_end_def)
qed

lemma past_end_iff_not_fits:
  "unat (offset e) + unat (length_e e) < 2 ^ 32 \<Longrightarrow>
   entry_past_end content e \<longleftrightarrow> \<not> fits content e"
proof -
  assume "unat (offset e) + unat (length_e e) < 2 ^ 32"
  then have "unat (offset e + length_e e) = unat (offset e) + unat (length_e e)"
    by (simp add: unat_word_ariths)
  then show ?thesis by (auto simp add: fits_def entry_past_end_def)
qed

lemma substr_fits:
  "fits content e \<Longrightarrow>
   substr content (unat (offset e)) (unat (length_e e)) = Some (entry_slice content e)"
  by (simp add: fits_def substr_def entry_slice_def take_drop_slice)

lemma extract_entry_fits:
  assumes "read_entry content (unat (o_offset header)) i = Some eo"
      and "read_entry content (unat (t_offset header)) i = Some et"
      and "fits content eo" and "fits content et"
  shows "extract_entry content header i = Inr (entry_slice content eo, entry_slice content et)"
  using assms by (simp add: extract_entry_def fits_not_past_end substr_fits)

lemma extract_entry_fails:
  assumes "read_entry content (unat (o_offset header)) i = Some eo"
      and "read_entry content (unat (t_offset header)) i = Some et"
      and "unat (offset eo) + unat (length_e eo) < 2 ^ 32"
      and "unat (offset et) + unat (length_e et) < 2 ^ 32"
      and "\<not> (fits content eo \<and> fits content et)"
  shows "extract_entry content header i = Inl (Diag EntryOutOfBounds)"
  using assms by (auto simp add: extract_entry_def past_end_iff_not_fits)

text \<open>A buffer of at least 20 bytes has a header; two example files have this one.\<close>

lemma read_header_Some:
  "sizeof_mo_header \<le> size content \<Longrightarrow> \<exists>header. read_header content = Some header"
  by (simp add: read_header_def load32_def c_str_def sizeof_mo_header_def)

lemma read_header_file_partial:
  "read_header file_partial =
     Some \<lparr>magic = 0x950412de, version = 0, number = 2, o_offset = 20, t_offset = 36\<rparr>"
  by (simp add: read_header_def load32_def c_str_def file_partial_def)

lemma read_header_file_dup:
  "read_header file_dup =
     Some \<lparr>magic = 0x950412de, version = 0, number = 2, o_offset = 20, t_offset = 36\<rparr>"
  by (simp add: read_header_def load32_def c_str_def file_dup_def)

section \<open>The size of the map\<close>

text \<open>
  Claim C10. However the parser ends, the map holds no more entries than the count field
  of the header (whenever the buffer is long enough to have one), and it is empty when the
  parser ends with one of the four diagnostics on the header. Where the parser ends by an
  exception or an undefined read, the map meant is \<^verbatim>\<open>hashmap_\<close> as it is at that
  moment.
\<close>

theorem catalog_size_bounded:
  "(\<forall>header. read_header content = Some header \<longrightarrow>
      size (snd (mo_parser content)) \<le> unat (number header)) \<and>
   (\<forall>d. fst (mo_parser content) = Diag d \<and> d \<noteq> EntryOutOfBounds \<longrightarrow>
      snd (mo_parser content) = [])"
proof (intro conjI allI impI)
  fix header
  assume "read_header content = Some header"
  then show "size (snd (mo_parser content)) \<le> unat (number header)"
    using loop_size [of content header 0 "[]"]
    by (simp add: mo_parser_def process_mo_contents_def)
next
  fix d
  assume a: "fst (mo_parser content) = Diag d \<and> d \<noteq> EntryOutOfBounds"
  show "snd (mo_parser content) = []"
  proof (cases "\<exists>header. mo_parser content = loop content header 0 []")
    case False
    then show ?thesis
      by (auto simp add: mo_parser_def process_mo_contents_def split: option.splits if_splits)
  next
    case True
    then obtain header where "mo_parser content = loop content header 0 []" by blast
    with a loop_Diag [of content header 0 "[]"] show ?thesis by auto
  qed
qed

theorem catalog_size_bounded_witness:
  "size (snd (mo_parser file_partial)) \<le> 2 \<and> snd (mo_parser ''xyz'') = []"
proof -
  have "fst (mo_parser ''xyz'') = Diag (TooSmall 3 20) \<and> TooSmall 3 20 \<noteq> EntryOutOfBounds"
    by (simp add: mo_parser_def process_mo_contents_def sizeof_mo_header_def)
  then show ?thesis
    using catalog_size_bounded [of file_partial] catalog_size_bounded [of "''xyz''"]
      read_header_file_partial
    by auto
qed

section \<open>Duplicate original strings\<close>

text \<open>
  Claim C3. When the parser runs to the end and two entries \<open>i < j\<close> have the same original
  string \<open>k\<close>, no entry before \<open>i\<close> having it, the map sends \<open>k\<close> to the translation of
  entry \<open>i\<close>, and no key occurs twice in the map. The witness is the file with \<open>dup\<close>
  translated \<open>first\<close> and then \<open>second\<close>.
\<close>

theorem first_entry_wins:
  assumes "read_header content = Some header"
      and "mo_parser content = (Done, cat)"
      and "i < j" and "j < unat (number header)"
      and "extract_entry content header i = Inr (k, v)"
      and "extract_entry content header j = Inr (k, v')"
      and "\<forall>m<i. \<forall>w. extract_entry content header m \<noteq> Inr (k, w)"
  shows "map_of cat k = Some v \<and> distinct (map fst cat)"
proof -
  have run: "loop content header 0 [] = (Done, cat)"
    using assms(1,2)
    by (auto simp add: mo_parser_def process_mo_contents_def split: if_splits)
  let ?n = "unat (number header)"
  have valid: "\<forall>m. 0 \<le> m \<and> m < ?n \<longrightarrow> (\<exists>p. extract_entry content header m = Inr p)"
    using loop_Done_all_valid [OF run] by blast
  have "loop content header 0 [] =
          loop content header ?n (store_all [] (entries_between content header 0 ?n))"
    using valid by (intro loop_prefix) auto
  then have cat: "cat = store_all [] (entries_between content header 0 ?n)"
    using run by (simp add: loop_end)
  have "map_of (entries_between content header 0 ?n) k = Some v"
    using assms(3,4,5,7) by (intro map_of_entries_between_first [where i = i]) auto
  then have "map_of cat k = Some v"
    by (simp add: cat map_of_store_all)
  moreover have "distinct (map fst cat)"
    using loop_distinct [of "[]" content header 0] run by simp
  ultimately show ?thesis by simp
qed

theorem first_entry_wins_witness:
  "map_of (snd (mo_parser file_dup)) ''dup'' = Some ''first'' \<and>
   distinct (map fst (snd (mo_parser file_dup)))"
proof -
  let ?h = "\<lparr>magic = 0x950412de, version = 0, number = 2, o_offset = 20, t_offset = 36\<rparr>"
  have run: "mo_parser file_dup = (Done, [(''dup'', ''first'')])"
    by (simp add: run_defs file_dup_def)
  have indices: "(0::nat) < 1" "1 < unat (number ?h)"
    by simp_all
  have first: "extract_entry file_dup ?h 0 = Inr (''dup'', ''first'')"
    by (simp add: extract_entry_def entry_defs entry_past_end_def substr_def file_dup_def)
  have second: "extract_entry file_dup ?h 1 = Inr (''dup'', ''second'')"
    by (simp add: extract_entry_def entry_defs entry_past_end_def substr_def file_dup_def)
  have none_before: "\<forall>m<0. \<forall>w. extract_entry file_dup ?h m \<noteq> Inr (''dup'', w)"
    by simp
  show ?thesis
    using first_entry_wins [OF read_header_file_dup run indices first second none_before]
    by (simp add: run)
qed

section \<open>The test of one entry\<close>

text \<open>
  Claim C4, amended. At an index \<open>i\<close> below the count whose two descriptors are read and
  have an offset and a length that sum to less than \<open>2 ^ 32\<close>: if both fit the buffer, the
  loop goes on to \<open>i + 1\<close> having stored exactly the two slices
  \<open>bytes[offset .. offset+length)\<close>, taken as they are; if not, the parser ends there with
  the diagnostic of line 69, which holds no index, and the map as it is.
\<close>

theorem entry_check_and_slice:
  assumes "i < unat (number header)"
      and "read_entry content (unat (o_offset header)) i = Some eo"
      and "read_entry content (unat (t_offset header)) i = Some et"
      and "unat (offset eo) + unat (length_e eo) < 2 ^ 32"
      and "unat (offset et) + unat (length_e et) < 2 ^ 32"
  shows "loop content header i h =
           (if fits content eo \<and> fits content et then
              loop content header (i + 1)
                (store_message (entry_slice content eo) (entry_slice content et) h)
            else (Diag EntryOutOfBounds, h))"
proof (cases "fits content eo \<and> fits content et")
  case True
  then have "extract_entry content header i =
               Inr (entry_slice content eo, entry_slice content et)"
    using assms(2,3) by (simp add: extract_entry_fits)
  with True assms(1) show ?thesis by (simp add: loop_step_Inr)
next
  case False
  then have "extract_entry content header i = Inl (Diag EntryOutOfBounds)"
    using assms(2-5) by (intro extract_entry_fails) auto
  moreover have "(fits content eo \<and> fits content et) = False"
    using False by simp
  ultimately show ?thesis
    using assms(1) by (simp only: if_False loop_step_Inl)
qed

theorem entry_check_and_slice_witness:
  "loop file_partial \<lparr>magic = 0x950412de, version = 0, number = 2, o_offset = 20, t_offset = 36\<rparr>
     0 [] =
   loop file_partial \<lparr>magic = 0x950412de, version = 0, number = 2, o_offset = 20, t_offset = 36\<rparr>
     (0 + 1) [(''a'', ''b'')] \<and>
   loop file_partial \<lparr>magic = 0x950412de, version = 0, number = 2, o_offset = 20, t_offset = 36\<rparr>
     1 [(''a'', ''b'')] = (Diag EntryOutOfBounds, [(''a'', ''b'')])"
proof -
  let ?h = "\<lparr>magic = 0x950412de, version = 0, number = 2, o_offset = 20, t_offset = 36\<rparr>"
  let ?eo0 = "\<lparr>length_e = 1, offset = 52\<rparr>" and ?et0 = "\<lparr>length_e = 1, offset = 53\<rparr>"
  let ?eo1 = "\<lparr>length_e = 2, offset = 53\<rparr>" and ?et1 = "\<lparr>length_e = 1, offset = 53\<rparr>"
  have index0: "0 < unat (number ?h)" and index1: "1 < unat (number ?h)"
    by simp_all
  have eo0: "read_entry file_partial (unat (o_offset ?h)) 0 = Some ?eo0"
    and et0: "read_entry file_partial (unat (t_offset ?h)) 0 = Some ?et0"
    and eo1: "read_entry file_partial (unat (o_offset ?h)) 1 = Some ?eo1"
    and et1: "read_entry file_partial (unat (t_offset ?h)) 1 = Some ?et1"
    by (simp_all add: entry_defs file_partial_def)
  have sums0: "unat (offset ?eo0) + unat (length_e ?eo0) < 2 ^ 32"
      "unat (offset ?et0) + unat (length_e ?et0) < 2 ^ 32"
    and sums1: "unat (offset ?eo1) + unat (length_e ?eo1) < 2 ^ 32"
      "unat (offset ?et1) + unat (length_e ?et1) < 2 ^ 32"
    by simp_all
  have fits0: "fits file_partial ?eo0 \<and> fits file_partial ?et0"
    and fits1: "\<not> (fits file_partial ?eo1 \<and> fits file_partial ?et1)"
    by (simp_all add: fits_def file_partial_def)
  have slices: "entry_slice file_partial ?eo0 = ''a''" "entry_slice file_partial ?et0 = ''b''"
    by (simp_all add: entry_slice_def slice_def file_partial_def)
  have "loop file_partial ?h 0 [] = loop file_partial ?h (0 + 1) [(''a'', ''b'')]"
    using entry_check_and_slice [OF index0 eo0 et0 sums0, of "[]"] fits0
    by (simp only: slices if_True) (simp add: store_message_def)
  moreover have "loop file_partial ?h 1 [(''a'', ''b'')] = (Diag EntryOutOfBounds, [(''a'', ''b'')])"
    using entry_check_and_slice [OF index1 eo1 et1 sums1, of "[(''a'', ''b'')]"] fits1
    by (simp only: if_False)
  ultimately show ?thesis by simp
qed

text \<open>
  Claim C4 as it was stated fails twice. The sum is a \<^verbatim>\<open>uint32_t\<close>: an original
  descriptor of length \<open>0xFFFFFFFF\<close> at offset 5 does not fit a file of 37 bytes, yet the
  parser runs to the end and stores the 32 bytes from offset 5 as the key. And the
  diagnostic is the same fixed text whether the entry that fails is entry 1 or entry 0.
\<close>

theorem entry_check_counterexample:
  "read_entry file_wrap_length 20 0 = Some \<lparr>length_e = 0xFFFFFFFF, offset = 5\<rparr> \<and>
   \<not> fits file_wrap_length \<lparr>length_e = 0xFFFFFFFF, offset = 5\<rparr> \<and>
   fst (mo_parser file_wrap_length) = Done \<and>
   size (fst (hd (snd (mo_parser file_wrap_length)))) = 32 \<and>
   fst (mo_parser file_partial) = Diag EntryOutOfBounds \<and>
   fst (mo_parser file_first_bad) = Diag EntryOutOfBounds \<and>
   message EntryOutOfBounds = '' file ended prematurely'' @ [CHR 0x0A]"
  by (simp add: run_defs fits_def file_wrap_length_def file_partial_def file_first_bad_def)

section \<open>Entries of length zero\<close>



section \<open>An entry past the end\<close>

text \<open>
  Claim C1, amended. In a buffer that passes the four tests on the header, let the entries
  before the index \<open>i\<close> fit and let entry \<open>i\<close> not fit, its sums staying below
  \<open>2 ^ 32\<close>. Then the parser ends with the diagnostic of line 69, which holds no index,
  and the map is not emptied: it holds the \<open>i\<close> entries before \<open>i\<close>, each key with the
  translation of its first occurrence.
\<close>

theorem entry_failure_keeps_earlier_entries:
  assumes "sizeof_mo_header \<le> size content"
      and "read_header content = Some header"
      and "magic header = 0x950412de"
      and "version header = 0 \<or> version header = 1"
      and "\<not> tables_past_end content header"
      and "i < unat (number header)"
      and "\<forall>j<i. \<exists>eo et. read_entry content (unat (o_offset header)) j = Some eo \<and>
                          read_entry content (unat (t_offset header)) j = Some et \<and>
                          fits content eo \<and> fits content et"
      and "read_entry content (unat (o_offset header)) i = Some eo"
      and "read_entry content (unat (t_offset header)) i = Some et"
      and "unat (offset eo) + unat (length_e eo) < 2 ^ 32"
      and "unat (offset et) + unat (length_e et) < 2 ^ 32"
      and "\<not> (fits content eo \<and> fits content et)"
  shows "mo_parser content =
           (Diag EntryOutOfBounds, store_all [] (entries_between content header 0 i)) \<and>
         size (entries_between content header 0 i) = i \<and>
         map_of (snd (mo_parser content)) = map_of (entries_between content header 0 i)"
proof -
  have valid: "\<forall>j. 0 \<le> j \<and> j < i \<longrightarrow> (\<exists>p. extract_entry content header j = Inr p)"
    using assms(7) extract_entry_fits by blast
  have "mo_parser content = loop content header 0 []"
    using assms(1-5) by (rule process_loop)
  also have "\<dots> = loop content header i (store_all [] (entries_between content header 0 i))"
    using valid assms(6) by (intro loop_prefix) auto
  also have "\<dots> = (Diag EntryOutOfBounds, store_all [] (entries_between content header 0 i))"
    using assms(6) extract_entry_fails [OF assms(8-12)] by (simp add: loop_step_Inl)
  finally have run: "mo_parser content =
      (Diag EntryOutOfBounds, store_all [] (entries_between content header 0 i))" .
  moreover have "size (entries_between content header 0 i) = i"
    using entries_between_valid [OF valid] by simp
  moreover have "map_of (store_all [] (entries_between content header 0 i)) =
                   map_of (entries_between content header 0 i)"
    by (rule ext) (simp add: map_of_store_all)
  ultimately show ?thesis by simp
qed

theorem entry_failure_keeps_earlier_entries_witness:
  "mo_parser file_partial = (Diag EntryOutOfBounds, [(''a'', ''b'')]) \<and>
   map_of (snd (mo_parser file_partial)) ''a'' = Some ''b''"
proof -
  let ?h = "\<lparr>magic = 0x950412de, version = 0, number = 2, o_offset = 20, t_offset = 36\<rparr>"
  let ?eo = "\<lparr>length_e = 2, offset = 53\<rparr>"
  let ?et = "\<lparr>length_e = 1, offset = 53\<rparr>"
  have size: "sizeof_mo_header \<le> size file_partial"
    by (simp add: sizeof_mo_header_def file_partial_def)
  have tables: "\<not> tables_past_end file_partial ?h"
    by (simp add: tables_past_end_def file_partial_def)
  have before: "\<forall>j<1. \<exists>eo et. read_entry file_partial (unat (o_offset ?h)) j = Some eo \<and>
                  read_entry file_partial (unat (t_offset ?h)) j = Some et \<and>
                  fits file_partial eo \<and> fits file_partial et"
    by (simp add: entry_defs fits_def file_partial_def)
  have eo: "read_entry file_partial (unat (o_offset ?h)) 1 = Some ?eo"
    by (simp add: entry_defs file_partial_def)
  have et: "read_entry file_partial (unat (t_offset ?h)) 1 = Some ?et"
    by (simp add: entry_defs file_partial_def)
  have bad: "\<not> (fits file_partial ?eo \<and> fits file_partial ?et)"
    by (simp add: fits_def file_partial_def)
  have entries: "entries_between file_partial ?h 0 1 = [(''a'', ''b'')]"
    by (simp add: entries_between_def extract_entry_def entry_defs entry_past_end_def substr_def
          file_partial_def)
  have magic: "magic ?h = 0x950412de" and version: "version ?h = 0 \<or> version ?h = 1"
    and index: "1 < unat (number ?h)"
    and sums: "unat (offset ?eo) + unat (length_e ?eo) < 2 ^ 32"
      "unat (offset ?et) + unat (length_e ?et) < 2 ^ 32"
    by simp_all
  show ?thesis
    using entry_failure_keeps_earlier_entries
            [OF size read_header_file_partial magic version tables index before eo et sums bad]
    unfolding entries by (simp add: store_all_def store_message_def)
qed

text \<open>
  Claim C1 as it was stated fails on the file of 54 bytes whose entry 1 has an offset and
  a length that sum to 55: the map that results holds entry 0. The diagnostic is the one
  that the file with the failing entry at index 0 gets, so it tells no index. And an entry
  whose 32-bit sum wraps does not fit, yet the parser does not end with the diagnostic.
\<close>

theorem entry_failure_counterexample:
  "read_entry file_partial 20 1 = Some \<lparr>length_e = 2, offset = 53\<rparr> \<and>
   \<not> fits file_partial \<lparr>length_e = 2, offset = 53\<rparr> \<and>
   mo_parser file_partial = (Diag EntryOutOfBounds, [(''a'', ''b'')]) \<and>
   snd (mo_parser file_partial) \<noteq> [] \<and>
   mo_parser file_first_bad = (Diag EntryOutOfBounds, []) \<and>
   read_entry file_wrap_length 20 0 = Some \<lparr>length_e = 0xFFFFFFFF, offset = 5\<rparr> \<and>
   \<not> fits file_wrap_length \<lparr>length_e = 0xFFFFFFFF, offset = 5\<rparr> \<and>
   fst (mo_parser file_wrap_length) = Done"
  by (simp add: run_defs fits_def file_partial_def file_first_bad_def file_wrap_length_def)

section \<open>The test of the tables\<close>

text \<open>
  Claim C2. The claim asks for the sums of line 58 in 64-bit arithmetic; the code computes
  them in \<^verbatim>\<open>uint32_t\<close>. A header that announces \<open>0x20000000\<close> entries at offset 20 of
  a file of 28 bytes needs \<open>20 + 8 * 0x20000000\<close> bytes, but \<open>8 * 0x20000000\<close> wraps to
  0, the test of line 58 passes, and the parser ends in the loop, with the diagnostic of
  line 69 instead of the one of line 60.
\<close>

theorem table_check_wraps:
  "read_header file_huge_count =
     Some \<lparr>magic = 0x950412de, version = 0, number = 0x20000000, o_offset = 20, t_offset = 20\<rparr> \<and>
   size file_huge_count < 20 + 8 * unat (0x20000000 :: uint32_t) \<and>
   \<not> tables_past_end file_huge_count
       \<lparr>magic = 0x950412de, version = 0, number = 0x20000000, o_offset = 20, t_offset = 20\<rparr> \<and>
   mo_parser file_huge_count = (Diag EntryOutOfBounds, [])"
  by (simp add: run_defs file_huge_count_def)

section \<open>The command line\<close>

text \<open>
  With fewer than three elements of \<^verbatim>\<open>argv\<close>, or a file that does not open, the
  program prints the usage on \<^verbatim>\<open>std::cerr\<close> and returns 1. With a file that opens and
  a third element that is neither \<open>keys\<close> nor \<open>pairs\<close>, whenever the parser returns, the
  program prints the line \<open>Read N entries:\<close>, the usage, and returns 0.
\<close>

lemma main_few_arguments:
  "size argv < 3 \<Longrightarrow> main files argv = \<lparr>out = [], err = print_usage argv, exit = Exit 1\<rparr>"
  by (simp add: main_def)

lemma main_cannot_open:
  "3 \<le> size argv \<Longrightarrow> files (argv ! 1) = None \<Longrightarrow>
   exit (main files argv) = Exit 1 \<and> out (main files argv) = [] \<and>
   err (main files argv) =
     print_usage argv @ ''Could not open file '' @ [CHR 0x27] @ argv ! 1 @ [CHR 0x27, CHR 0x0A]"
  by (simp add: main_def)

lemma main_unknown_action:
  assumes "3 \<le> size argv" and "files (argv ! 1) = Some contents"
      and "argv ! 2 \<noteq> ''keys''" and "argv ! 2 \<noteq> ''pairs''"
      and "mo_parser contents = (s, h)" and "s = Done \<or> (\<exists>d. s = Diag d)"
  shows "exit (main files argv) = Exit 0 \<and>
         out (main files argv) =
           ''Read '' @ decimal (size h) @ '' entries:'' @ [CHR 0x0A, CHR 0x0A] \<and>
         err (main files argv) =
           (case s of Diag d \<Rightarrow> message d | _ \<Rightarrow> []) @ print_usage argv"
  using assms by (auto simp add: main_def dump_def)

text \<open>
  Claim C9. The claim is about every file that opens, and the parser does not return on
  every file. In a file whose one original descriptor has length 1 at offset
  \<open>0xFFFFFFFF\<close>, the 32-bit sum of line 67 wraps to 0 and passes the test, and
  \<^verbatim>\<open>substr\<close> throws \<^verbatim>\<open>std::out_of_range\<close>: the program aborts in the constructor,
  before the line \<open>Read N entries:\<close>, and does not return 0.
\<close>

theorem main_aborts:
  "mo_parser file_wrap_offset = (OutOfRange, []) \<and>
   main (\<lambda>name. if name = ''bad.mo'' then Some file_wrap_offset else None)
        [''mo_dump'', ''bad.mo'', ''values''] = \<lparr>out = [], err = [], exit = Abort\<rparr>"
proof -
  have "mo_parser file_wrap_offset = (OutOfRange, [])"
    by (simp add: run_defs file_wrap_offset_def)
  then show ?thesis by (simp add: main_def)
qed

end
